theory Spec2Isabelle
  imports Main "HOL-Library.Multiset"
begin

section \<open>Strings\<close>

text \<open>
  Strings are modelled as ASCII character lists. \<open>String.prototype.trim\<close> removes
  leading and trailing white space (tab, line feed, vertical tab, form feed, carriage
  return, space); \<open>toLowerCase\<close> maps the letters A to Z to a to z; \<open>split(" ")\<close>
  cuts at every single space character, so that two adjacent spaces give an empty
  piece and a tab does not separate.
\<close>

definition is_space :: "char \<Rightarrow> bool" where
  "is_space c = (c \<in> set [CHR 0x09, CHR 0x0A, CHR 0x0B, CHR 0x0C, CHR 0x0D, CHR 0x20])"

definition trim :: "string \<Rightarrow> string" where
  "trim s = rev (dropWhile is_space (rev (dropWhile is_space s)))"

definition lower_char :: "char \<Rightarrow> char" where
  "lower_char c =
     (case map_of (zip ''ABCDEFGHIJKLMNOPQRSTUVWXYZ'' ''abcdefghijklmnopqrstuvwxyz'') c of
        None \<Rightarrow> c
      | Some d \<Rightarrow> d)"

definition toLowerCase :: "string \<Rightarrow> string" where
  "toLowerCase s = map lower_char s"

fun split_space :: "string \<Rightarrow> string list" where
  "split_space [] = [[]]"
| "split_space (c # cs) =
     (if c = CHR '' '' then [] # split_space cs
      else (case split_space cs of [] \<Rightarrow> [[c]] | w # ws \<Rightarrow> (c # w) # ws))"

text \<open>Decimal rendering of an array index, as the template literal does.\<close>

fun show_nat :: "nat \<Rightarrow> string" where
  "show_nat n =
     (if n < 10 then [''0123456789'' ! n]
      else show_nat (n div 10) @ [''0123456789'' ! (n mod 10)])"

declare show_nat.simps [simp del]

text \<open>\<open>xs[k]\<close>: \<open>undefined\<close> (here \<open>None\<close>) outside the array.\<close>

definition nth_opt :: "'a list \<Rightarrow> nat \<Rightarrow> 'a option" where
  "nth_opt xs k = (if k < length xs then Some (xs ! k) else None)"

definition nth_int :: "'a list \<Rightarrow> int \<Rightarrow> 'a option" where
  "nth_int xs k = (if 0 \<le> k \<and> k < int (length xs) then Some (xs ! nat k) else None)"

text \<open>\<open>Array.from(new Set(xs))\<close>: the distinct elements in first-seen order.\<close>

definition from_set :: "'a list \<Rightarrow> 'a list" where
  "from_set xs = foldl (\<lambda>acc x. if x \<in> set acc then acc else acc @ [x]) [] xs"


section \<open>Items and the normalizer\<close>

text \<open>
  \<open>RawItem\<close>: every field is optional (\<open>None\<close> is \<open>undefined\<close> or \<open>null\<close>);
  \<open>answer\<close> is a string or an array of strings. \<open>answerIndex\<close> is a number: an
  index that is negative, too large or not an integer reads \<open>undefined\<close>, which is
  what \<open>nth_int\<close> returns outside the range.
\<close>

datatype raw_answer = AnswerString string | AnswerArray "string list"

record RawItem =
  raw_question :: "string option"
  raw_q :: "string option"
  raw_choices :: "string list option"
  raw_options :: "string list option"
  raw_distractors :: "string list option"
  raw_answer :: "raw_answer option"
  raw_answerIndex :: "int option"
  raw_a :: "string option"
  raw_synonyms :: "string list option"
  raw_type :: "string option"

datatype answer = Single string | Multi "string list"

record Item =
  item_id :: string
  question :: string
  choices :: "string list"
  answer :: answer
  synonyms :: "string list option"
  item_type :: "string option"

text \<open>JavaScript truthiness of an optional string: present and not empty.\<close>

definition truthy :: "string option \<Rightarrow> bool" where
  "truthy x = (case x of None \<Rightarrow> False | Some s \<Rightarrow> s \<noteq> [])"

text \<open>\<open>(raw.question ?? raw.q ?? "").toString().trim()\<close>\<close>

definition resolve_question :: "RawItem \<Rightarrow> string" where
  "resolve_question raw =
     trim (case raw_question raw of Some s \<Rightarrow> s
           | None \<Rightarrow> (case raw_q raw of Some s \<Rightarrow> s | None \<Rightarrow> []))"

text \<open>
  The choice list before cleaning: \<open>raw.choices ?? raw.options ?? []\<close>, replaced by
  \<open>[raw.a, ...distractors]\<close> when it is empty and \<open>raw.a\<close> is truthy.
\<close>

definition resolve_choices :: "RawItem \<Rightarrow> string list" where
  "resolve_choices raw =
     (let choices0 = (case raw_choices raw of Some cs \<Rightarrow> cs
                      | None \<Rightarrow> (case raw_options raw of Some cs \<Rightarrow> cs | None \<Rightarrow> []))
      in if choices0 = [] \<and> truthy (raw_a raw)
         then the (raw_a raw) # (case raw_distractors raw of Some ds \<Rightarrow> ds | None \<Rightarrow> [])
         else choices0)"

text \<open>
  The answer of the full variant (the one with definition items): an array is
  trimmed entry by entry, a string is trimmed, an index reads the uncleaned choice list
  and is used when the entry there is truthy, then the legacy field \<open>a\<close>, else
  \<open>null\<close>.
\<close>

definition resolve_answer :: "RawItem \<Rightarrow> string list \<Rightarrow> answer option" where
  "resolve_answer raw chs =
     (case raw_answer raw of
        Some (AnswerArray xs) \<Rightarrow> Some (Multi (map trim xs))
      | Some (AnswerString s) \<Rightarrow> Some (Single (trim s))
      | None \<Rightarrow>
          (case (case raw_answerIndex raw of None \<Rightarrow> None
                 | Some k \<Rightarrow> (if truthy (nth_int chs k) then nth_int chs k else None)) of
             Some c \<Rightarrow> Some (Single c)
           | None \<Rightarrow> (case raw_a raw of Some s \<Rightarrow> Some (Single (trim s)) | None \<Rightarrow> None)))"

text \<open>\<open>!answer\<close>: \<open>null\<close> and the empty string are falsy, every array is truthy.\<close>

definition answer_falsy :: "answer option \<Rightarrow> bool" where
  "answer_falsy x = (case x of None \<Rightarrow> True | Some (Single s) \<Rightarrow> s = [] | Some (Multi _) \<Rightarrow> False)"

text \<open>\<open>choices.map((c) => c?.toString().trim()).filter(Boolean)\<close>\<close>

definition clean_choices :: "string list \<Rightarrow> string list" where
  "clean_choices chs = filter (\<lambda>c. c \<noteq> []) (map trim chs)"

text \<open>\<open>normalize\<close> of the variant with definition items.\<close>

definition normalize :: "RawItem \<Rightarrow> nat \<Rightarrow> Item option" where
  "normalize raw idx =
     (let question = resolve_question raw;
          choices = resolve_choices raw;
          answer = resolve_answer raw choices;
          cleanChoices = clean_choices choices
      in if question = [] \<or> (cleanChoices = [] \<and> raw_type raw \<noteq> Some ''definition'')
            \<or> answer_falsy answer
         then None
         else Some \<lparr>item_id = ''q-'' @ show_nat idx, question = question,
                     choices = from_set cleanChoices, answer = the answer,
                     synonyms = raw_synonyms raw, item_type = raw_type raw\<rparr>)"

text \<open>
  \<open>normalize\<close> of the two multiple-choice variants (they are the same function):
  the answer is a string only, the item has no synonyms and no type, and the length
  test is \<open>cleanChoices.length < 2\<close>, made before the duplicates are removed.
\<close>

definition resolve_answer_mc :: "RawItem \<Rightarrow> string list \<Rightarrow> answer option" where
  "resolve_answer_mc raw chs =
     (case raw_answer raw of
        Some (AnswerString s) \<Rightarrow> Some (Single (trim s))
      | _ \<Rightarrow>
          (case (case raw_answerIndex raw of None \<Rightarrow> None
                 | Some k \<Rightarrow> (if truthy (nth_int chs k) then nth_int chs k else None)) of
             Some c \<Rightarrow> Some (Single c)
           | None \<Rightarrow> (case raw_a raw of Some s \<Rightarrow> Some (Single (trim s)) | None \<Rightarrow> None)))"

definition normalize_mc :: "RawItem \<Rightarrow> nat \<Rightarrow> Item option" where
  "normalize_mc raw idx =
     (let question = resolve_question raw;
          choices = resolve_choices raw;
          answer = resolve_answer_mc raw choices;
          cleanChoices = clean_choices choices
      in if question = [] \<or> length cleanChoices < 2 \<or> answer_falsy answer
         then None
         else Some \<lparr>item_id = ''q-'' @ show_nat idx, question = question,
                     choices = from_set cleanChoices, answer = the answer,
                     synonyms = None, item_type = None\<rparr>)"

text \<open>An item written back as a raw record in the canonical shape.\<close>

definition canonical :: "Item \<Rightarrow> RawItem" where
  "canonical it =
     \<lparr>raw_question = Some (question it), raw_q = None,
      raw_choices = Some (choices it), raw_options = None, raw_distractors = None,
      raw_answer = Some (case answer it of Single s \<Rightarrow> AnswerString s | Multi xs \<Rightarrow> AnswerArray xs),
      raw_answerIndex = None, raw_a = None,
      raw_synonyms = synonyms it, raw_type = item_type it\<rparr>"


section \<open>The answer matcher for definition items\<close>

definition normalizeText :: "string \<Rightarrow> string" where
  "normalizeText txt = toLowerCase (trim txt)"

text \<open>
  The loop over the candidates, with its early return. The test
  \<open>matchCount / ansWords.length >= 0.7\<close> divides two array lengths;
  for arrays of fewer than \<open>10^15\<close> words the rounded quotient reaches the constant
  \<open>0.7\<close> exactly when \<open>7 * ansWords.length \<le> 10 * matchCount\<close>, which is what the
  model tests.
\<close>

fun partial_match :: "string \<Rightarrow> string list \<Rightarrow> bool" where
  "partial_match ua [] = False"
| "partial_match ua (ans # rest) =
     (let ansWords = split_space ans;
          uaWords = split_space ua;
          matchCount = length (filter (\<lambda>word. word \<in> set ansWords) uaWords)
      in if 7 * length ansWords \<le> 10 * matchCount then True else partial_match ua rest)"

definition isDefinitionCorrect :: "string \<Rightarrow> answer \<Rightarrow> string list option \<Rightarrow> bool" where
  "isDefinitionCorrect userAnswer correctAnswer syns =
     (let ua = normalizeText userAnswer;
          answers = (case correctAnswer of Multi xs \<Rightarrow> xs | Single x \<Rightarrow> [x]);
          allPossible = map normalizeText (answers @ (case syns of None \<Rightarrow> [] | Some ss \<Rightarrow> ss))
      in if ua \<in> set allPossible then True else partial_match ua allPossible)"

text \<open>
  The matcher as the specification words it, for comparison: the words of a string are
  its maximal runs of characters that are not white space, and a candidate is met when
  the typed words found among its words, divided by the number of its words, reach
  \<open>0.70\<close>.
\<close>

fun split_ws :: "string \<Rightarrow> string list" where
  "split_ws [] = [[]]"
| "split_ws (c # cs) =
     (if is_space c then [] # split_ws cs
      else (case split_ws cs of [] \<Rightarrow> [[c]] | w # ws \<Rightarrow> (c # w) # ws))"

definition spec_words :: "string \<Rightarrow> string list" where
  "spec_words s = filter (\<lambda>w. w \<noteq> []) (split_ws s)"

definition spec_isDefinitionCorrect :: "string \<Rightarrow> answer \<Rightarrow> string list option \<Rightarrow> bool" where
  "spec_isDefinitionCorrect t A S =
     (let ua = normalizeText t;
          cands = map normalizeText
                    ((case A of Multi xs \<Rightarrow> xs | Single x \<Rightarrow> [x]) @ (case S of None \<Rightarrow> [] | Some ss \<Rightarrow> ss))
      in ua \<in> set cands \<or>
         list_ex (\<lambda>c. spec_words c \<noteq> [] \<and>
                     7 * length (spec_words c)
                       \<le> 10 * length (filter (\<lambda>w. w \<in> set (spec_words c)) (spec_words ua))) cands)"


section \<open>The shuffler\<close>

text \<open>
  The random source is a function \<open>rnd\<close>: \<open>rnd i\<close> is the value of
  \<open>Math.floor(Math.random() * (i + 1))\<close> in the iteration with counter \<open>i\<close>, one of
  \<open>0, ..., i\<close>. The loop runs from \<open>a.length - 1\<close> down to \<open>1\<close>; on the empty array
  \<open>a.length - 1\<close> is negative and the loop does not run, as with the truncating
  subtraction here.
\<close>

definition draws_in_range :: "(nat \<Rightarrow> nat) \<Rightarrow> bool" where
  "draws_in_range rnd = (\<forall>i. rnd i \<le> i)"

definition swap :: "nat \<Rightarrow> nat \<Rightarrow> 'a list \<Rightarrow> 'a list" where
  "swap i j a = a[i := a ! j, j := a ! i]"

fun shuffle_loop :: "(nat \<Rightarrow> nat) \<Rightarrow> nat \<Rightarrow> 'a list \<Rightarrow> 'a list" where
  "shuffle_loop rnd 0 a = a"
| "shuffle_loop rnd (Suc k) a = shuffle_loop rnd k (swap (Suc k) (rnd (Suc k)) a)"

definition shuffle :: "(nat \<Rightarrow> nat) \<Rightarrow> 'a list \<Rightarrow> 'a list" where
  "shuffle rnd arr = shuffle_loop rnd (length arr - 1) arr"

text \<open>
  The same function over a store of arrays, where an array is its address: \<open>arr.slice()\<close>
  allocates a new array, and the loop writes to that array only.
\<close>

type_synonym 'a heap = "'a list list"

fun shuffle_loop_heap :: "(nat \<Rightarrow> nat) \<Rightarrow> nat \<Rightarrow> nat \<Rightarrow> 'a heap \<Rightarrow> 'a heap" where
  "shuffle_loop_heap rnd 0 a h = h"
| "shuffle_loop_heap rnd (Suc k) a h =
     shuffle_loop_heap rnd k a (h[a := swap (Suc k) (rnd (Suc k)) (h ! a)])"

definition shuffle_heap :: "(nat \<Rightarrow> nat) \<Rightarrow> nat \<Rightarrow> 'a heap \<Rightarrow> nat \<times> 'a heap" where
  "shuffle_heap rnd arr h =
     (let a = length h;
          h1 = h @ [h ! arr]
      in (a, shuffle_loop_heap rnd (length (h1 ! a) - 1) a h1))"


section \<open>The session\<close>

datatype feedback = Correct | Wrong

record score =
  correct :: nat
  total :: nat

text \<open>
  The state of the component. \<open>cursor\<close> is the state variable \<open>i\<close>. An entry of
  \<open>order\<close> is an index into \<open>items\<close>, or \<open>None\<close> for \<open>undefined\<close>.
\<close>

record state =
  items :: "Item list"
  order :: "nat option list"
  cursor :: nat
  picked :: "string option"
  typedAnswer :: string
  showFeedback :: "feedback option"
  score :: score
  tts :: bool
  error :: "string option"
  streak :: nat
  trivia :: "string option"
  availableTrivia :: "string list"

definition current :: "state \<Rightarrow> Item option" where
  "current s =
     (if items s = [] \<or> order s = [] then None
      else (let idx = (case nth_opt (order s) (cursor s) of Some (Some k) \<Rightarrow> k | _ \<Rightarrow> 0)
            in nth_opt (items s) idx))"

text \<open>
  \<open>visibleChoices\<close>: the entries are the item's answer (cast to a string by the source,
  an array when the item has several answers) and choice strings. \<open>rnd1\<close> and \<open>rnd2\<close>
  are the random sources of the two calls of \<open>shuffle\<close>.
\<close>

definition visibleChoices :: "(nat \<Rightarrow> nat) \<Rightarrow> (nat \<Rightarrow> nat) \<Rightarrow> state \<Rightarrow> answer list" where
  "visibleChoices rnd1 rnd2 s =
     (case current s of
        None \<Rightarrow> []
      | Some cur \<Rightarrow>
          if item_type cur = Some ''definition'' then []
          else (let others = filter (\<lambda>c. Single c \<noteq> answer cur) (choices cur);
                    base = take (max 4 (min 4 (length (choices cur))))
                             (shuffle rnd1 (answer cur # map Single others))
                in if 2 \<le> length base then base else map Single (shuffle rnd2 (choices cur))))"

text \<open>
  A questions upload. \<open>parsed\<close> is the outcome of \<open>JSON.parse\<close> on the text read: a
  syntax error with the engine's message, a value that is not an array, or an array of
  raw items. (An array with an entry that is not of type \<open>RawItem\<close> and makes
  \<open>normalize\<close> throw ends in the same \<open>catch\<close> as a syntax error, with the message
  of that exception.) \<open>setError(null)\<close> runs before the file is read. Reading aloud has
  no effect on the state and is left out.
\<close>

datatype parsed = SyntaxError string | NotArray | RawArray "RawItem list"

datatype file_event = NoFile | ReadFailed | ReadDone parsed

definition normalize_all :: "RawItem list \<Rightarrow> Item list" where
  "normalize_all json =
     map the (filter (\<lambda>r. r \<noteq> None)
                (map (\<lambda>(raw, idx). normalize raw idx) (zip json [0..<length json])))"

definition onUploadQuestions :: "(nat \<Rightarrow> nat) \<Rightarrow> file_event \<Rightarrow> state \<Rightarrow> state" where
  "onUploadQuestions rnd ev s =
     (case ev of
        NoFile \<Rightarrow> s
      | ReadFailed \<Rightarrow> s\<lparr>error := Some ''Could not read file.''\<rparr>
      | ReadDone p \<Rightarrow>
          (case p of
             SyntaxError msg \<Rightarrow> s\<lparr>error := Some (if msg = [] then ''Invalid JSON file.'' else msg)\<rparr>
           | NotArray \<Rightarrow> s\<lparr>error := Some ''JSON must be an array of items''\<rparr>
           | RawArray json \<Rightarrow>
               (let normalized = normalize_all json
                in if normalized = [] then s\<lparr>error := Some ''No valid questions found.''\<rparr>
                   else s\<lparr>error := None,
                          items := normalized,
                          order := map Some (shuffle rnd [0..<length normalized]),
                          cursor := 0,
                          picked := None,
                          typedAnswer := [],
                          showFeedback := None,
                          score := \<lparr>correct = 0, total = 0\<rparr>\<rparr>)))"

text \<open>The streak and trivia update shared by \<open>select\<close> and \<open>checkDefinition\<close>.\<close>

definition reward :: "bool \<Rightarrow> state \<Rightarrow> state" where
  "reward isCorrect s =
     (if isCorrect then
        (let newStreak = streak s + 1
         in if 2 \<le> newStreak \<and> 0 < length (availableTrivia s)
            then (case availableTrivia s of
                    fct # rest \<Rightarrow> s\<lparr>trivia := Some fct, availableTrivia := rest, streak := 0\<rparr>
                  | [] \<Rightarrow> s)
            else s\<lparr>streak := newStreak\<rparr>)
      else s\<lparr>streak := 0\<rparr>)"

definition record_answer :: "string \<Rightarrow> bool \<Rightarrow> state \<Rightarrow> state" where
  "record_answer given isCorrect s =
     reward isCorrect
       (s\<lparr>picked := Some given,
          showFeedback := Some (if isCorrect then Correct else Wrong),
          score := \<lparr>correct = correct (score s) + (if isCorrect then 1 else 0),
                    total = total (score s) + 1\<rparr>\<rparr>)"

definition checkDefinition :: "state \<Rightarrow> state" where
  "checkDefinition s =
     (case current s of
        None \<Rightarrow> s
      | Some cur \<Rightarrow>
          if truthy (picked s) then s
          else record_answer (typedAnswer s)
                 (isDefinitionCorrect (typedAnswer s) (answer cur) (synonyms cur)) s)"

definition select :: "string \<Rightarrow> state \<Rightarrow> state" where
  "select choice s =
     (case current s of
        None \<Rightarrow> s
      | Some cur \<Rightarrow>
          if truthy (picked s) then s
          else record_answer choice (Single choice = answer cur) s)"

definition next_item :: "state \<Rightarrow> state" where
  "next_item s =
     (if items s = [] then s
      else s\<lparr>picked := None, typedAnswer := [], showFeedback := None,
             cursor := (if cursor s + 1 < length (order s) then cursor s + 1 else 0)\<rparr>)"

definition skip_order :: "nat \<Rightarrow> nat option list \<Rightarrow> nat option list" where
  "skip_order i ord =
     (if ord = [] then ord
      else (let cur = (case nth_opt ord i of Some v \<Rightarrow> v | None \<Rightarrow> None);
                rest = map fst (filter (\<lambda>(_, idx). idx \<noteq> i) (zip ord [0..<length ord]))
            in rest @ [cur]))"

definition skip :: "state \<Rightarrow> state" where
  "skip s = s\<lparr>order := skip_order (cursor s) (order s),
              picked := None, typedAnswer := [], showFeedback := None\<rparr>"

text \<open>The initial values of the state variables.\<close>

definition initial_state :: state where
  "initial_state =
     \<lparr>items = [], order = [], cursor = 0, picked = None, typedAnswer = [],
      showFeedback = None, score = \<lparr>correct = 0, total = 0\<rparr>, tts = False, error = None,
      streak = 0, trivia = None, availableTrivia = []\<rparr>"


text \<open>
  The trivia upload, with the outcome of \<open>JSON.parse\<close> as for the questions, and the
  remaining setters that the rendered controls call.
\<close>

datatype parsed_trivia = TriviaSyntaxError string | TriviaNotArray | TriviaArray "string list"

datatype trivia_event = NoTriviaFile | TriviaReadFailed | TriviaReadDone parsed_trivia

definition onUploadTrivia :: "(nat \<Rightarrow> nat) \<Rightarrow> trivia_event \<Rightarrow> state \<Rightarrow> state" where
  "onUploadTrivia rnd ev s =
     (case ev of
        NoTriviaFile \<Rightarrow> s
      | TriviaReadFailed \<Rightarrow> s\<lparr>error := Some ''Could not read trivia file.''\<rparr>
      | TriviaReadDone p \<Rightarrow>
          (case p of
             TriviaSyntaxError msg \<Rightarrow>
               s\<lparr>error := Some (if msg = [] then ''Invalid trivia JSON file.'' else msg)\<rparr>
           | TriviaNotArray \<Rightarrow> s\<lparr>error := Some ''Trivia JSON must be an array of strings.''\<rparr>
           | TriviaArray json \<Rightarrow> s\<lparr>error := None, availableTrivia := shuffle rnd json\<rparr>))"

definition setTypedAnswer :: "string \<Rightarrow> state \<Rightarrow> state" where
  "setTypedAnswer v s = s\<lparr>typedAnswer := v\<rparr>"

definition setTts :: "bool \<Rightarrow> state \<Rightarrow> state" where
  "setTts b s = s\<lparr>tts := b\<rparr>"

definition closeTrivia :: "state \<Rightarrow> state" where
  "closeTrivia s = s\<lparr>trivia := None\<rparr>"

text \<open>
  The sessions that the rendered page can be in. Every control of the page is a rule:
  the two file inputs, the read-aloud checkbox, the close button of the trivia box, the
  text input, the submit button, the choice buttons, and the buttons Next and Skip.
  The submit button carries \<open>disabled={!!picked || !typedAnswer.trim()}\<close>, so it calls
  \<open>checkDefinition\<close> only on typed text that is not blank; a choice button is one of
  the entries of \<open>visibleChoices()\<close> and calls \<open>select\<close> with that entry. The rules
  keep only these two conditions and drop every other condition of rendering (that
  there is a current item, its type, \<open>disabled={!!picked}\<close>), which the handlers test
  again themselves, so that every session of the page is among the sessions here. The
  choice passed to \<open>select\<close> is a string, as its parameter is declared: an entry
  that is an array (the answer of an item with several answers that is not a
  definition) has no rule.
\<close>

inductive reachable :: "state \<Rightarrow> bool" where
  start: "reachable initial_state"
| upload_questions:
    "reachable s \<Longrightarrow> draws_in_range rnd \<Longrightarrow> reachable (onUploadQuestions rnd ev s)"
| upload_trivia:
    "reachable s \<Longrightarrow> draws_in_range rnd \<Longrightarrow> reachable (onUploadTrivia rnd tev s)"
| read_aloud: "reachable s \<Longrightarrow> reachable (setTts b s)"
| close_trivia: "reachable s \<Longrightarrow> reachable (closeTrivia s)"
| type_text: "reachable s \<Longrightarrow> reachable (setTypedAnswer v s)"
| click_submit:
    "reachable s \<Longrightarrow> trim (typedAnswer s) \<noteq> [] \<Longrightarrow> reachable (checkDefinition s)"
| click_choice:
    "reachable s \<Longrightarrow> draws_in_range rnd1 \<Longrightarrow> draws_in_range rnd2
     \<Longrightarrow> Single choice \<in> set (visibleChoices rnd1 rnd2 s)
     \<Longrightarrow> reachable (select choice s)"
| click_next: "reachable s \<Longrightarrow> reachable (next_item s)"
| click_skip: "reachable s \<Longrightarrow> reachable (skip s)"

text \<open>
  What every such session satisfies: the stored items have non-empty choices and an
  answer that is not the empty string, and the recorded answer, when there is one, is
  not the empty string.
\<close>

definition well_formed :: "state \<Rightarrow> bool" where
  "well_formed s =
     ((\<forall>it \<in> set (items s). answer it \<noteq> Single [] \<and> (\<forall>c \<in> set (choices it). c \<noteq> []))
      \<and> (picked s = None \<or> truthy (picked s)))"


section \<open>Sample inputs\<close>

text \<open>
  The object \<open>{}\<close>, the raw item \<open>{question: "Q", choices: ["a", "b"], answer: "a"}\<close>,
  the item it normalizes to, and a session holding that item alone.
\<close>

definition empty_raw :: RawItem where
  "empty_raw =
     \<lparr>raw_question = None, raw_q = None, raw_choices = None, raw_options = None,
      raw_distractors = None, raw_answer = None, raw_answerIndex = None, raw_a = None,
      raw_synonyms = None, raw_type = None\<rparr>"

definition sample_raw :: RawItem where
  "sample_raw =
     empty_raw\<lparr>raw_question := Some ''Q'', raw_choices := Some [''a'', ''b''],
               raw_answer := Some (AnswerString ''a'')\<rparr>"

definition sample_item :: Item where
  "sample_item =
     \<lparr>item_id = ''q-0'', question = ''Q'', choices = [''a'', ''b''], answer = Single ''a'',
      synonyms = None, item_type = None\<rparr>"

definition sample_state :: state where
  "sample_state = initial_state\<lparr>items := [sample_item], order := [Some 0]\<rparr>"


section \<open>Auxiliary facts\<close>

lemmas string_eval =
  trim_def is_space_def toLowerCase_def lower_char_def normalizeText_def

lemmas normalize_eval =
  normalize_def normalize_mc_def resolve_question_def resolve_choices_def resolve_answer_def
  resolve_answer_mc_def clean_choices_def answer_falsy_def truthy_def from_set_def
  nth_int_def canonical_def show_nat.simps Let_def

lemma partial_match_iff:
  "partial_match ua cs \<longleftrightarrow>
     (\<exists>c \<in> set cs. 7 * length (split_space c)
        \<le> 10 * length (filter (\<lambda>w. w \<in> set (split_space c)) (split_space ua)))"
  by (induction cs) (auto simp: Let_def)

lemma swap_length [simp]: "length (swap i j a) = length a"
  by (simp add: swap_def)

lemma swap_mset: "i < length a \<Longrightarrow> j < length a \<Longrightarrow> mset (swap i j a) = mset a"
  unfolding swap_def by (rule mset_swap)

lemma shuffle_loop_length [simp]: "length (shuffle_loop rnd k a) = length a"
  by (induction k arbitrary: a) simp_all

lemma shuffle_loop_mset:
  "draws_in_range rnd \<Longrightarrow> k < length a \<Longrightarrow> mset (shuffle_loop rnd k a) = mset a"
proof (induction k arbitrary: a)
  case 0
  then show ?case by simp
next
  case (Suc k)
  from Suc.prems have j: "rnd (Suc k) < length a"
    unfolding draws_in_range_def by (meson le_less_trans)
  have "mset (shuffle_loop rnd k (swap (Suc k) (rnd (Suc k)) a))
          = mset (swap (Suc k) (rnd (Suc k)) a)"
    using Suc.prems by (intro Suc.IH) simp_all
  then show ?case using Suc.prems j by (simp add: swap_mset)
qed

lemma shuffle_mset: "draws_in_range rnd \<Longrightarrow> mset (shuffle rnd arr) = mset arr"
  by (cases "arr = []") (simp_all add: shuffle_def shuffle_loop_mset)

lemma shuffle_length [simp]: "length (shuffle rnd arr) = length arr"
  by (simp add: shuffle_def)

lemma shuffle_loop_heap_eq:
  "a < length h \<Longrightarrow> shuffle_loop_heap rnd k a h = h[a := shuffle_loop rnd k (h ! a)]"
  by (induction k arbitrary: h) simp_all

lemma filter_zip_upt:
  "map fst (filter (\<lambda>(_, idx). idx \<noteq> k + i) (zip ord [k..<k + length ord]))
     = take i ord @ drop (Suc i) ord"
proof (induction ord arbitrary: k i)
  case Nil
  then show ?case by simp
next
  case (Cons x xs)
  have upt: "[k..<Suc (k + length xs)] = k # [Suc k..<Suc (k + length xs)]"
    by (simp add: upt_rec)
  show ?case
  proof (cases i)
    case 0
    have "filter (\<lambda>(_, idx). idx \<noteq> k) (zip xs [Suc k..<Suc (k + length xs)])
            = zip xs [Suc k..<Suc (k + length xs)]"
      by (rule filter_True) (auto dest!: set_zip_rightD)
    with 0 show ?thesis by (simp add: upt del: upt_Suc)
  next
    case (Suc i')
    with Cons.IH[of "Suc k" i'] show ?thesis by (simp add: upt del: upt_Suc)
  qed
qed

lemma skip_order_in_range:
  "i < length ord \<Longrightarrow> skip_order i ord = take i ord @ drop (Suc i) ord @ [ord ! i]"
  using filter_zip_upt[of 0 i ord] by (auto simp: skip_order_def nth_opt_def Let_def)

lemma dropWhile_stable: "xs = [] \<or> \<not> P (hd xs) \<Longrightarrow> dropWhile P xs = xs"
  by (cases xs) auto

lemma dropWhile_head: "dropWhile P xs = [] \<or> \<not> P (hd (dropWhile P xs))"
  using hd_dropWhile by blast

lemma rev_dropWhile_rev_head:
  assumes "u = [] \<or> \<not> P (hd u)"
  shows "rev (dropWhile P (rev u)) = [] \<or> \<not> P (hd (rev (dropWhile P (rev u))))"
proof (cases "dropWhile P (rev u) = []")
  case True
  then show ?thesis by simp
next
  case False
  have "rev u = takeWhile P (rev u) @ dropWhile P (rev u)"
    by simp
  then have "rev (rev u) = rev (takeWhile P (rev u) @ dropWhile P (rev u))"
    by simp
  then have u: "u = rev (dropWhile P (rev u)) @ rev (takeWhile P (rev u))"
    by (simp only: rev_rev_ident rev_append)
  from False have ne: "rev (dropWhile P (rev u)) \<noteq> []"
    by simp
  then have "hd u = hd (rev (dropWhile P (rev u)))"
    using u by (metis hd_append2)
  moreover from u ne have "u \<noteq> []"
    by (metis append_is_Nil_conv)
  ultimately show ?thesis using assms by simp
qed


lemma trim_idem [simp]: "trim (trim s) = trim s"
proof -
  let ?u = "dropWhile is_space s"
  let ?w = "dropWhile is_space (rev ?u)"
  have "rev ?w = [] \<or> \<not> is_space (hd (rev ?w))"
    by (rule rev_dropWhile_rev_head) (rule dropWhile_head)
  then have a: "dropWhile is_space (rev ?w) = rev ?w"
    by (rule dropWhile_stable)
  have b: "dropWhile is_space ?w = ?w"
    by (rule dropWhile_stable) (rule dropWhile_head)
  show ?thesis
    unfolding trim_def by (simp only: a rev_rev_ident b)
qed

lemma from_set_acc_distinct:
  "distinct acc \<Longrightarrow> distinct (foldl (\<lambda>acc x. if x \<in> set acc then acc else acc @ [x]) acc xs)
     \<and> set (foldl (\<lambda>acc x. if x \<in> set acc then acc else acc @ [x]) acc xs) = set acc \<union> set xs"
  by (induction xs arbitrary: acc) auto

lemma from_set_acc_id:
  "distinct (acc @ xs) \<Longrightarrow> foldl (\<lambda>acc x. if x \<in> set acc then acc else acc @ [x]) acc xs = acc @ xs"
  by (induction xs arbitrary: acc) auto

lemma distinct_from_set [simp]: "distinct (from_set xs)"
  using from_set_acc_distinct[of "[]" xs] by (simp add: from_set_def)

lemma set_from_set [simp]: "set (from_set xs) = set xs"
  using from_set_acc_distinct[of "[]" xs] by (simp add: from_set_def)

lemma from_set_distinct: "distinct xs \<Longrightarrow> from_set xs = xs"
  using from_set_acc_id[of "[]" xs] by (simp add: from_set_def)

lemma from_set_idem [simp]: "from_set (from_set xs) = from_set xs"
  by (simp add: from_set_distinct)

lemma from_set_Nil_iff [simp]: "from_set xs = [] \<longleftrightarrow> xs = []"
  by (metis set_from_set set_empty)

lemma clean_choices_stable:
  "\<forall>c \<in> set cs. c \<noteq> [] \<and> trim c = c \<Longrightarrow> clean_choices cs = cs"
  by (induction cs) (auto simp: clean_choices_def)

lemma clean_choices_elems: "c \<in> set (clean_choices cs) \<Longrightarrow> c \<noteq> [] \<and> trim c = c"
  by (auto simp: clean_choices_def)

lemma clean_from_set_clean [simp]:
  "clean_choices (from_set (clean_choices cs)) = from_set (clean_choices cs)"
  by (rule clean_choices_stable) (auto dest: clean_choices_elems)

lemma shuffle_set: "draws_in_range rnd \<Longrightarrow> set (shuffle rnd xs) = set xs"
  by (metis shuffle_mset set_mset_mset)

lemma shuffle_distinct: "draws_in_range rnd \<Longrightarrow> distinct (shuffle rnd xs) = distinct xs"
  by (metis shuffle_mset distinct_count_atmost_1 set_mset_mset count_mset)

lemma normalize_sample: "normalize sample_raw 0 = Some sample_item"
  by (simp add: sample_raw_def sample_item_def empty_raw_def normalize_eval string_eval)

lemma normalize_all_sample: "normalize_all [sample_raw] = [sample_item]"
  by (simp add: normalize_all_def normalize_sample)

lemma onUpload_failure:
  "ev = ReadDone (SyntaxError msg) \<or> ev = ReadDone NotArray
     \<or> (ev = ReadDone (RawArray json) \<and> normalize_all json = [])
   \<Longrightarrow> \<exists>m. m \<noteq> [] \<and> onUploadQuestions rnd ev s = s\<lparr>error := Some m\<rparr>"
  by (auto simp: onUploadQuestions_def)

lemma onUpload_success:
  "normalize_all json \<noteq> [] \<Longrightarrow>
   onUploadQuestions rnd (ReadDone (RawArray json)) s =
     s\<lparr>error := None, items := normalize_all json,
       order := map Some (shuffle rnd [0..<length (normalize_all json)]),
       cursor := 0, picked := None, typedAnswer := [], showFeedback := None,
       score := \<lparr>correct = 0, total = 0\<rparr>\<rparr>"
  by (simp add: onUploadQuestions_def Let_def)

lemma onUpload_frame:
  "\<not> (\<exists>json. ev = ReadDone (RawArray json) \<and> normalize_all json \<noteq> []) \<Longrightarrow>
   items (onUploadQuestions rnd ev s) = items s \<and> order (onUploadQuestions rnd ev s) = order s
   \<and> cursor (onUploadQuestions rnd ev s) = cursor s \<and> picked (onUploadQuestions rnd ev s) = picked s
   \<and> showFeedback (onUploadQuestions rnd ev s) = showFeedback s
   \<and> score (onUploadQuestions rnd ev s) = score s"
  by (auto simp: onUploadQuestions_def Let_def split: file_event.splits parsed.splits)


section \<open>The normalizer: answers outside the choice list (C1)\<close>

text \<open>
  C1 says that a raw item with a question, at least two cleaned choices and a resolved
  answer string that is not one of the choices is rejected. The normalizer never
  compares the answer with the choices: the item
  \<open>{question: "Q", choices: ["a", "b"], answer: "c"}\<close> meets every condition of the
  claim and is accepted.
\<close>

theorem normalize_foreign_answer_counterexample:
  "resolve_question (sample_raw\<lparr>raw_answer := Some (AnswerString ''c'')\<rparr>) \<noteq> []
   \<and> 2 \<le> length (clean_choices (resolve_choices (sample_raw\<lparr>raw_answer := Some (AnswerString ''c'')\<rparr>)))
   \<and> resolve_answer (sample_raw\<lparr>raw_answer := Some (AnswerString ''c'')\<rparr>)
         (resolve_choices (sample_raw\<lparr>raw_answer := Some (AnswerString ''c'')\<rparr>)) = Some (Single ''c'')
   \<and> ''c'' \<notin> set (clean_choices (resolve_choices (sample_raw\<lparr>raw_answer := Some (AnswerString ''c'')\<rparr>)))
   \<and> normalize (sample_raw\<lparr>raw_answer := Some (AnswerString ''c'')\<rparr>) 0
        = Some \<lparr>item_id = ''q-0'', question = ''Q'', choices = [''a'', ''b''],
                answer = Single ''c'', synonyms = None, item_type = None\<rparr>"
  by (simp add: sample_raw_def empty_raw_def normalize_eval string_eval)

text \<open>
  C1 as amended: a raw item with a non-empty question, at least two cleaned choices and
  a resolved answer string \<open>a\<close> that is not one of the choices is rejected only when
  \<open>a\<close> is the empty string; otherwise it is accepted, and the item carries \<open>a\<close> as
  its answer beside the cleaned choices without their duplicates.
\<close>

theorem normalize_foreign_answer:
  assumes "resolve_question raw \<noteq> []"
    and "2 \<le> length (clean_choices (resolve_choices raw))"
    and "resolve_answer raw (resolve_choices raw) = Some (Single a)"
    and "a \<notin> set (clean_choices (resolve_choices raw))"
  shows "normalize raw idx =
           (if a = [] then None
            else Some \<lparr>item_id = ''q-'' @ show_nat idx, question = resolve_question raw,
                       choices = from_set (clean_choices (resolve_choices raw)),
                       answer = Single a, synonyms = raw_synonyms raw, item_type = raw_type raw\<rparr>)"
proof -
  from assms(2) have "clean_choices (resolve_choices raw) \<noteq> []" by auto
  with assms(1,3) show ?thesis
    by (simp add: normalize_def answer_falsy_def Let_def)
qed

text \<open>The amended C1 at the item \<open>{question: "Q", choices: ["a", "b"], answer: "c"}\<close>, index 7.\<close>

theorem normalize_foreign_answer_witness:
  "resolve_question (sample_raw\<lparr>raw_answer := Some (AnswerString ''c'')\<rparr>) \<noteq> []
   \<and> 2 \<le> length (clean_choices (resolve_choices (sample_raw\<lparr>raw_answer := Some (AnswerString ''c'')\<rparr>)))
   \<and> resolve_answer (sample_raw\<lparr>raw_answer := Some (AnswerString ''c'')\<rparr>)
         (resolve_choices (sample_raw\<lparr>raw_answer := Some (AnswerString ''c'')\<rparr>)) = Some (Single ''c'')
   \<and> ''c'' \<notin> set (clean_choices (resolve_choices (sample_raw\<lparr>raw_answer := Some (AnswerString ''c'')\<rparr>)))
   \<and> normalize (sample_raw\<lparr>raw_answer := Some (AnswerString ''c'')\<rparr>) 7
        = Some \<lparr>item_id = ''q-7'', question = ''Q'', choices = [''a'', ''b''],
                answer = Single ''c'', synonyms = None, item_type = None\<rparr>"
proof -
  have h1: "resolve_question (sample_raw\<lparr>raw_answer := Some (AnswerString ''c'')\<rparr>) \<noteq> []"
    and h2: "2 \<le> length (clean_choices (resolve_choices (sample_raw\<lparr>raw_answer := Some (AnswerString ''c'')\<rparr>)))"
    and h3: "resolve_answer (sample_raw\<lparr>raw_answer := Some (AnswerString ''c'')\<rparr>)
         (resolve_choices (sample_raw\<lparr>raw_answer := Some (AnswerString ''c'')\<rparr>)) = Some (Single ''c'')"
    and h4: "''c'' \<notin> set (clean_choices (resolve_choices (sample_raw\<lparr>raw_answer := Some (AnswerString ''c'')\<rparr>)))"
    by (simp_all add: sample_raw_def empty_raw_def normalize_eval string_eval)
  from normalize_foreign_answer [OF h1 h2 h3 h4, of 7] h1 h2 h3 h4 show ?thesis
    by (simp add: sample_raw_def empty_raw_def normalize_eval string_eval)
qed


section \<open>The normalizer: fewer than two distinct choices (C2)\<close>

text \<open>
  C2 says that an item that is not a definition is stored only with at least two
  distinct choices. The code is evaluated at
  \<open>{question: "Q", choices: ["a", "a"], answer: "a"}\<close>: every variant of the
  normalizer accepts it and stores the single choice \<open>a\<close>, because the choices
  are counted before the duplicates are removed. The variant with definition items
  also accepts \<open>{question: "Q", choices: ["a"], answer: "a"}\<close>, which the two
  multiple-choice variants reject.
\<close>

theorem normalize_single_choice_accepted:
  "normalize (sample_raw\<lparr>raw_choices := Some [''a'', ''a'']\<rparr>) 0
     = Some \<lparr>item_id = ''q-0'', question = ''Q'', choices = [''a''], answer = Single ''a'',
             synonyms = None, item_type = None\<rparr>
   \<and> normalize_mc (sample_raw\<lparr>raw_choices := Some [''a'', ''a'']\<rparr>) 0
     = Some \<lparr>item_id = ''q-0'', question = ''Q'', choices = [''a''], answer = Single ''a'',
             synonyms = None, item_type = None\<rparr>
   \<and> normalize (sample_raw\<lparr>raw_choices := Some [''a'']\<rparr>) 0
     = Some \<lparr>item_id = ''q-0'', question = ''Q'', choices = [''a''], answer = Single ''a'',
             synonyms = None, item_type = None\<rparr>
   \<and> normalize_mc (sample_raw\<lparr>raw_choices := Some [''a'']\<rparr>) 0 = None"
  by (simp add: sample_raw_def empty_raw_def normalize_eval string_eval)


section \<open>The answer matcher (C3)\<close>

text \<open>
  C3 says that the partial match counts the white-space-delimited words of the typed
  answer that occur among the words of a candidate, and the comment in the code speaks
  of words as well. The code is evaluated where it cuts at every single space instead:
  the candidate \<open>"a  b"\<close> (two spaces) has the three pieces a, empty, b, so the typed
  answer \<open>"a b"\<close>, with both its words among the two words of the candidate, finds
  two of three and is judged incorrect; the typed answer \<open>"reaction  rate"\<close> against
  the candidate \<open>"rate  of reaction"\<close> finds three of four pieces, the empty one
  among them, and is judged correct, with two of the three words; and a tab between a
  and b in the candidate makes one piece of the two words.
\<close>

theorem isDefinitionCorrect_single_space_pieces:
  "split_space ''a  b'' = [''a'', [], ''b'']
   \<and> spec_words ''a  b'' = [''a'', ''b'']
   \<and> \<not> isDefinitionCorrect ''a b'' (Single ''a  b'') None
   \<and> spec_isDefinitionCorrect ''a b'' (Single ''a  b'') None
   \<and> isDefinitionCorrect ''reaction  rate'' (Single ''rate  of reaction'') None
   \<and> \<not> spec_isDefinitionCorrect ''reaction  rate'' (Single ''rate  of reaction'') None
   \<and> \<not> isDefinitionCorrect ''a b'' (Single [CHR ''a'', CHR 0x09, CHR ''b'']) None
   \<and> spec_isDefinitionCorrect ''a b'' (Single [CHR ''a'', CHR 0x09, CHR ''b'']) None"
  by (simp add: isDefinitionCorrect_def spec_isDefinitionCorrect_def spec_words_def string_eval)

text \<open>
  What the code computes, in terms of the pieces between single spaces: the
  lowercase, trimmed typed answer is one of the lowercase, trimmed candidates, or for
  some candidate the typed pieces found among its pieces, divided by the number of
  its pieces, reach \<open>0.70\<close>. On the two examples of the specification, which hold
  single spaces only, the typed answer \<open>"reaction rate"\<close> against
  \<open>"rate of reaction"\<close> is incorrect and \<open>"rate of reaction speed"\<close> is correct.
\<close>

lemma isDefinitionCorrect_by_pieces:
  "(isDefinitionCorrect t A S \<longleftrightarrow>
      normalizeText t
        \<in> set (map normalizeText ((case A of Multi xs \<Rightarrow> xs | Single x \<Rightarrow> [x])
                                   @ (case S of None \<Rightarrow> [] | Some ss \<Rightarrow> ss)))
      \<or> (\<exists>c \<in> set (map normalizeText ((case A of Multi xs \<Rightarrow> xs | Single x \<Rightarrow> [x])
                                         @ (case S of None \<Rightarrow> [] | Some ss \<Rightarrow> ss))).
            7 * length (split_space c)
              \<le> 10 * length (filter (\<lambda>w. w \<in> set (split_space c)) (split_space (normalizeText t)))))
   \<and> \<not> isDefinitionCorrect ''reaction rate'' (Single ''rate of reaction'') None
   \<and> isDefinitionCorrect ''rate of reaction speed'' (Single ''rate of reaction'') None"
proof (intro conjI)
  show "isDefinitionCorrect t A S \<longleftrightarrow>
      normalizeText t
        \<in> set (map normalizeText ((case A of Multi xs \<Rightarrow> xs | Single x \<Rightarrow> [x])
                                   @ (case S of None \<Rightarrow> [] | Some ss \<Rightarrow> ss)))
      \<or> (\<exists>c \<in> set (map normalizeText ((case A of Multi xs \<Rightarrow> xs | Single x \<Rightarrow> [x])
                                         @ (case S of None \<Rightarrow> [] | Some ss \<Rightarrow> ss))).
            7 * length (split_space c)
              \<le> 10 * length (filter (\<lambda>w. w \<in> set (split_space c)) (split_space (normalizeText t))))"
    unfolding isDefinitionCorrect_def Let_def partial_match_iff by auto
  show "\<not> isDefinitionCorrect ''reaction rate'' (Single ''rate of reaction'') None"
    by (simp add: isDefinitionCorrect_def string_eval)
  show "isDefinitionCorrect ''rate of reaction speed'' (Single ''rate of reaction'') None"
    by (simp add: isDefinitionCorrect_def string_eval)
qed


section \<open>Questions upload (C4)\<close>

text \<open>
  C4: an upload that fails (the text does not parse, the parsed value is not an array,
  or no raw item normalizes) changes nothing but the error field, which then holds a
  non-empty message; an upload with at least one normalized item stores the items, a
  shuffled order of all their indices, cursor 0, no selection, no feedback and the score
  0 of 0; and the items, order, cursor, selection, feedback or score change only in
  that second case.
\<close>

theorem upload_all_or_nothing:
  "(ev = ReadDone (SyntaxError msg) \<or> ev = ReadDone NotArray
      \<or> (ev = ReadDone (RawArray json) \<and> normalize_all json = [])
     \<longrightarrow> (\<exists>m. m \<noteq> [] \<and> onUploadQuestions rnd ev s = s\<lparr>error := Some m\<rparr>))
   \<and> (normalize_all json \<noteq> [] \<longrightarrow>
        onUploadQuestions rnd (ReadDone (RawArray json)) s =
          s\<lparr>error := None, items := normalize_all json,
            order := map Some (shuffle rnd [0..<length (normalize_all json)]),
            cursor := 0, picked := None, typedAnswer := [], showFeedback := None,
            score := \<lparr>correct = 0, total = 0\<rparr>\<rparr>)
   \<and> (normalize_all json \<noteq> [] \<and> draws_in_range rnd \<longrightarrow>
        mset (order (onUploadQuestions rnd (ReadDone (RawArray json)) s))
          = mset (map Some [0..<length (normalize_all json)]))
   \<and> (items (onUploadQuestions rnd ev s) \<noteq> items s \<or> order (onUploadQuestions rnd ev s) \<noteq> order s
        \<or> cursor (onUploadQuestions rnd ev s) \<noteq> cursor s \<or> picked (onUploadQuestions rnd ev s) \<noteq> picked s
        \<or> showFeedback (onUploadQuestions rnd ev s) \<noteq> showFeedback s
        \<or> score (onUploadQuestions rnd ev s) \<noteq> score s
       \<longrightarrow> (\<exists>js. ev = ReadDone (RawArray js) \<and> normalize_all js \<noteq> []))"
proof (intro conjI impI)
  assume "ev = ReadDone (SyntaxError msg) \<or> ev = ReadDone NotArray
      \<or> (ev = ReadDone (RawArray json) \<and> normalize_all json = [])"
  then show "\<exists>m. m \<noteq> [] \<and> onUploadQuestions rnd ev s = s\<lparr>error := Some m\<rparr>"
    by (rule onUpload_failure)
next
  assume "normalize_all json \<noteq> []"
  then show "onUploadQuestions rnd (ReadDone (RawArray json)) s =
          s\<lparr>error := None, items := normalize_all json,
            order := map Some (shuffle rnd [0..<length (normalize_all json)]),
            cursor := 0, picked := None, typedAnswer := [], showFeedback := None,
            score := \<lparr>correct = 0, total = 0\<rparr>\<rparr>"
    by (rule onUpload_success)
next
  assume a: "normalize_all json \<noteq> [] \<and> draws_in_range rnd"
  then have "mset (shuffle rnd [0..<length (normalize_all json)])
               = mset [0..<length (normalize_all json)]"
    by (simp add: shuffle_mset)
  then have "mset (map Some (shuffle rnd [0..<length (normalize_all json)]))
               = mset (map Some [0..<length (normalize_all json)])"
    by (metis mset_map)
  with a show "mset (order (onUploadQuestions rnd (ReadDone (RawArray json)) s))
          = mset (map Some [0..<length (normalize_all json)])"
    by (simp add: onUpload_success)
next
  assume "items (onUploadQuestions rnd ev s) \<noteq> items s \<or> order (onUploadQuestions rnd ev s) \<noteq> order s
        \<or> cursor (onUploadQuestions rnd ev s) \<noteq> cursor s \<or> picked (onUploadQuestions rnd ev s) \<noteq> picked s
        \<or> showFeedback (onUploadQuestions rnd ev s) \<noteq> showFeedback s
        \<or> score (onUploadQuestions rnd ev s) \<noteq> score s"
  then show "\<exists>js. ev = ReadDone (RawArray js) \<and> normalize_all js \<noteq> []"
    using onUpload_frame[of ev rnd s] by blast
qed

text \<open>
  C4 at a session holding one item: malformed text leaves it as it is apart from the
  error message; from the initial state, the upload of one valid raw item is committed.
\<close>

theorem upload_all_or_nothing_witness:
  "(\<exists>m. m \<noteq> [] \<and>
        onUploadQuestions (\<lambda>i. 0) (ReadDone (SyntaxError ''Unexpected token'')) sample_state
          = sample_state\<lparr>error := Some m\<rparr>)
   \<and> normalize_all [sample_raw] \<noteq> [] \<and> draws_in_range (\<lambda>i. 0)
   \<and> items (onUploadQuestions (\<lambda>i. 0) (ReadDone (RawArray [sample_raw])) initial_state) = [sample_item]
   \<and> items (onUploadQuestions (\<lambda>i. 0) (ReadDone (RawArray [sample_raw])) initial_state)
        \<noteq> items initial_state
   \<and> mset (order (onUploadQuestions (\<lambda>i. 0) (ReadDone (RawArray [sample_raw])) initial_state))
        = {#Some 0#}
   \<and> (\<exists>js. ReadDone (RawArray [sample_raw]) = ReadDone (RawArray js) \<and> normalize_all js \<noteq> [])"
proof -
  note fails = upload_all_or_nothing
      [of "ReadDone (SyntaxError ''Unexpected token'')" "''Unexpected token''" "[]" "\<lambda>i. 0"
          sample_state]
  note commits = upload_all_or_nothing
      [of "ReadDone (RawArray [sample_raw])" "[]" "[sample_raw]" "\<lambda>i. 0" initial_state]
  have ne: "normalize_all [sample_raw] \<noteq> []"
    by (simp add: normalize_all_sample)
  have dr: "draws_in_range (\<lambda>i. 0)"
    by (simp add: draws_in_range_def)
  from fails have A: "\<exists>m. m \<noteq> [] \<and>
        onUploadQuestions (\<lambda>i. 0) (ReadDone (SyntaxError ''Unexpected token'')) sample_state
          = sample_state\<lparr>error := Some m\<rparr>"
    by blast
  from commits ne have
    "onUploadQuestions (\<lambda>i. 0) (ReadDone (RawArray [sample_raw])) initial_state =
       initial_state\<lparr>error := None, items := normalize_all [sample_raw],
         order := map Some (shuffle (\<lambda>i. 0) [0..<length (normalize_all [sample_raw])]),
         cursor := 0, picked := None, typedAnswer := [], showFeedback := None,
         score := \<lparr>correct = 0, total = 0\<rparr>\<rparr>"
    by blast
  then have B:
    "items (onUploadQuestions (\<lambda>i. 0) (ReadDone (RawArray [sample_raw])) initial_state) = [sample_item]"
    by (simp add: normalize_all_sample)
  from commits ne dr have
    "mset (order (onUploadQuestions (\<lambda>i. 0) (ReadDone (RawArray [sample_raw])) initial_state))
        = mset (map Some [0..<length (normalize_all [sample_raw])])"
    by blast
  then have C:
    "mset (order (onUploadQuestions (\<lambda>i. 0) (ReadDone (RawArray [sample_raw])) initial_state))
        = {#Some 0#}"
    by (simp add: normalize_all_sample)
  from B have D: "items (onUploadQuestions (\<lambda>i. 0) (ReadDone (RawArray [sample_raw])) initial_state)
        \<noteq> items initial_state"
    by (simp add: initial_state_def)
  from commits D have E:
    "\<exists>js. ReadDone (RawArray [sample_raw]) = ReadDone (RawArray js) \<and> normalize_all js \<noteq> []"
    by blast
  from A ne dr B D C E show ?thesis by blast
qed


section \<open>Normalizing an item again (C8)\<close>

text \<open>
  C8 says that an item produced by the normalizer, fed back in its canonical shape, is
  accepted and gives the same question, choices, answer, synonyms and type. The code is
  evaluated at \<open>{question: "Q", choices: [" a ", "b"], answerIndex: 0}\<close>: the answer
  taken through the index is the uncleaned choice \<open>" a "\<close>, and feeding the item back
  gives the answer \<open>"a"\<close>. At \<open>{question: "Q", choices: ["  ", "a", "b"], answerIndex: 0}\<close>
  the answer is two spaces, and the item fed back is rejected.
\<close>

theorem normalize_again_differs:
  "normalize (empty_raw\<lparr>raw_question := Some ''Q'', raw_choices := Some ['' a '', ''b''],
                         raw_answerIndex := Some 0\<rparr>) 0
     = Some \<lparr>item_id = ''q-0'', question = ''Q'', choices = [''a'', ''b''], answer = Single '' a '',
             synonyms = None, item_type = None\<rparr>
   \<and> normalize (canonical \<lparr>item_id = ''q-0'', question = ''Q'', choices = [''a'', ''b''],
                            answer = Single '' a '', synonyms = None, item_type = None\<rparr>) 0
     = Some \<lparr>item_id = ''q-0'', question = ''Q'', choices = [''a'', ''b''], answer = Single ''a'',
             synonyms = None, item_type = None\<rparr>
   \<and> normalize (empty_raw\<lparr>raw_question := Some ''Q'', raw_choices := Some [''  '', ''a'', ''b''],
                         raw_answerIndex := Some 0\<rparr>) 0
     = Some \<lparr>item_id = ''q-0'', question = ''Q'', choices = [''a'', ''b''], answer = Single ''  '',
             synonyms = None, item_type = None\<rparr>
   \<and> normalize (canonical \<lparr>item_id = ''q-0'', question = ''Q'', choices = [''a'', ''b''],
                            answer = Single ''  '', synonyms = None, item_type = None\<rparr>) 0 = None"
  by (simp add: empty_raw_def normalize_eval string_eval)

text \<open>
  The other ways of resolving the answer trim it: an item whose answer string is
  already trimmed (every item whose answer did not come through \<open>answerIndex\<close>)
  normalizes again, at any index, to the same item apart from the id.
\<close>

lemma normalize_again_trimmed:
  assumes "normalize raw idx = Some it"
    and "\<And>s. answer it = Single s \<Longrightarrow> trim s = s"
  shows "normalize (canonical it) j = Some (it\<lparr>item_id := ''q-'' @ show_nat j\<rparr>)"
proof -
  from assms(1) have q: "question it = resolve_question raw" "resolve_question raw \<noteq> []"
    and c: "choices it = from_set (clean_choices (resolve_choices raw))"
    and t: "item_type it = raw_type raw" "synonyms it = raw_synonyms raw"
    and ne: "clean_choices (resolve_choices raw) \<noteq> [] \<or> raw_type raw = Some ''definition''"
    and a: "\<not> answer_falsy (resolve_answer raw (resolve_choices raw))"
       "answer it = the (resolve_answer raw (resolve_choices raw))"
    by (auto simp: normalize_def Let_def split: if_splits)
  have rq: "resolve_question (canonical it) = question it"
    by (simp add: resolve_question_def canonical_def q)
  have rc: "resolve_choices (canonical it) = choices it"
    by (simp add: resolve_choices_def canonical_def truthy_def)
  have ra: "resolve_answer (canonical it) (choices it) = Some (answer it)"
  proof (cases "answer it")
    case (Single s)
    with assms(2) show ?thesis by (simp add: resolve_answer_def canonical_def)
  next
    case (Multi xs)
    with a have "\<exists>ys. xs = map trim ys"
      by (auto simp: resolve_answer_def answer_falsy_def split: option.splits raw_answer.splits if_splits)
    then have "map trim xs = xs" by auto
    with Multi show ?thesis by (simp add: resolve_answer_def canonical_def)
  qed
  have nf: "\<not> answer_falsy (Some (answer it))"
    using a by (auto simp: answer_falsy_def split: option.splits answer.splits)
  have cc: "clean_choices (choices it) = choices it" "from_set (choices it) = choices it"
    unfolding c by simp_all
  have ok: "choices it \<noteq> [] \<or> item_type it = Some ''definition''"
    using ne unfolding c t by simp
  have rt: "raw_type (canonical it) = item_type it" "raw_synonyms (canonical it) = synonyms it"
    by (simp_all add: canonical_def)
  have qn: "question it \<noteq> []"
    using q by simp
  have "normalize (canonical it) j =
          Some \<lparr>item_id = ''q-'' @ show_nat j, question = question it, choices = choices it,
                 answer = answer it, synonyms = synonyms it, item_type = item_type it\<rparr>"
    unfolding normalize_def Let_def rq rc ra cc rt
    using ok qn nf by auto
  also have "\<dots> = Some (it\<lparr>item_id := ''q-'' @ show_nat j\<rparr>)"
    by (cases it) simp
  finally show ?thesis .
qed


section \<open>Streak and trivia (C5)\<close>

lemma current_record_answer [simp]: "current (record_answer g ok s) = current s"
  by (simp add: record_answer_def reward_def current_def Let_def split: list.splits)

lemma select_fresh:
  "current s = Some cur \<Longrightarrow> \<not> truthy (picked s) \<Longrightarrow>
   select choice s = record_answer choice (Single choice = answer cur) s"
  by (simp add: select_def)

lemma checkDefinition_fresh:
  "current s = Some cur \<Longrightarrow> \<not> truthy (picked s) \<Longrightarrow>
   checkDefinition s =
     record_answer (typedAnswer s) (isDefinitionCorrect (typedAnswer s) (answer cur) (synonyms cur)) s"
  by (simp add: checkDefinition_def)

lemma record_answer_reveal:
  "ok \<Longrightarrow> 2 \<le> streak s + 1 \<Longrightarrow> availableTrivia s = f # rest \<Longrightarrow>
   trivia (record_answer g ok s) = Some f \<and> availableTrivia (record_answer g ok s) = rest
   \<and> streak (record_answer g ok s) = 0"
  by (simp add: record_answer_def reward_def)

lemma record_answer_no_facts:
  "ok \<Longrightarrow> availableTrivia s = [] \<Longrightarrow>
   streak (record_answer g ok s) = streak s + 1 \<and> availableTrivia (record_answer g ok s) = []
   \<and> trivia (record_answer g ok s) = trivia s"
  by (simp add: record_answer_def reward_def)

lemma record_answer_first:
  "ok \<Longrightarrow> streak s + 1 < 2 \<Longrightarrow>
   streak (record_answer g ok s) = streak s + 1
   \<and> availableTrivia (record_answer g ok s) = availableTrivia s
   \<and> trivia (record_answer g ok s) = trivia s"
  by (simp add: record_answer_def reward_def)

lemma record_answer_wrong:
  "\<not> ok \<Longrightarrow>
   streak (record_answer g ok s) = 0 \<and> availableTrivia (record_answer g ok s) = availableTrivia s
   \<and> trivia (record_answer g ok s) = trivia s"
  by (simp add: record_answer_def reward_def)

lemma current_sample [simp]:
  "current (sample_state\<lparr>streak := n, availableTrivia := q, typedAnswer := t\<rparr>) = Some sample_item"
  by (simp add: current_def sample_state_def initial_state_def nth_opt_def)

lemma picked_sample [simp]:
  "picked (sample_state\<lparr>streak := n, availableTrivia := q, typedAnswer := t\<rparr>) = None"
  by (simp add: sample_state_def initial_state_def)

text \<open>
  C5: let a question be answered (there is a current item and nothing is picked yet), by
  \<open>select\<close> or by \<open>checkDefinition\<close>. On a correct answer with an incremented streak
  of at least 2 and a fact in the queue, the first fact of the queue becomes the pending
  trivia, the queue loses exactly that fact and the streak is 0. On a correct answer with
  an empty queue the streak is the incremented value, whatever it was before, so it grows
  past 2. On a correct answer with an incremented streak below 2 the streak is the
  incremented value and no fact is taken. On an incorrect answer the streak is 0 and no
  fact is taken.
\<close>

theorem streak_and_trivia:
  assumes "current s = Some cur" and "\<not> truthy (picked s)"
    and "s1 = select choice s" and "ok1 = (Single choice = answer cur)"
    and "s2 = checkDefinition s"
    and "ok2 = isDefinitionCorrect (typedAnswer s) (answer cur) (synonyms cur)"
  shows "(ok1 \<and> 2 \<le> streak s + 1 \<and> availableTrivia s = f # rest \<longrightarrow>
            trivia s1 = Some f \<and> availableTrivia s1 = rest \<and> streak s1 = 0)
       \<and> (ok1 \<and> availableTrivia s = [] \<longrightarrow>
            streak s1 = streak s + 1 \<and> availableTrivia s1 = [] \<and> trivia s1 = trivia s)
       \<and> (ok1 \<and> streak s + 1 < 2 \<longrightarrow>
            streak s1 = streak s + 1 \<and> availableTrivia s1 = availableTrivia s \<and> trivia s1 = trivia s)
       \<and> (\<not> ok1 \<longrightarrow> streak s1 = 0 \<and> availableTrivia s1 = availableTrivia s \<and> trivia s1 = trivia s)
       \<and> (ok2 \<and> 2 \<le> streak s + 1 \<and> availableTrivia s = f # rest \<longrightarrow>
            trivia s2 = Some f \<and> availableTrivia s2 = rest \<and> streak s2 = 0)
       \<and> (ok2 \<and> availableTrivia s = [] \<longrightarrow>
            streak s2 = streak s + 1 \<and> availableTrivia s2 = [] \<and> trivia s2 = trivia s)
       \<and> (ok2 \<and> streak s + 1 < 2 \<longrightarrow>
            streak s2 = streak s + 1 \<and> availableTrivia s2 = availableTrivia s \<and> trivia s2 = trivia s)
       \<and> (\<not> ok2 \<longrightarrow> streak s2 = 0 \<and> availableTrivia s2 = availableTrivia s \<and> trivia s2 = trivia s)"
proof -
  have e1: "s1 = record_answer choice ok1 s"
    using assms by (simp add: select_fresh)
  have e2: "s2 = record_answer (typedAnswer s) ok2 s"
    using assms by (simp add: checkDefinition_fresh)
  show ?thesis
    unfolding e1 e2
    using record_answer_reveal[of ok1 s f rest choice] record_answer_no_facts[of ok1 s choice]
      record_answer_first[of ok1 s choice] record_answer_wrong[of ok1 choice s]
      record_answer_reveal[of ok2 s f rest "typedAnswer s"] record_answer_no_facts[of ok2 s "typedAnswer s"]
      record_answer_first[of ok2 s "typedAnswer s"] record_answer_wrong[of ok2 "typedAnswer s" s]
    by blast
qed

text \<open>
  C5 at the sample session: with streak 1 and two facts, the correct choice reveals the
  first fact and a wrong choice resets the streak; with streak 2 and no fact, a correct
  answer gives streak 3; with streak 0 and two facts, a correct answer gives streak 1.
\<close>

theorem streak_and_trivia_witness:
  "current (sample_state\<lparr>streak := 1, availableTrivia := [''f1'', ''f2''], typedAnswer := ''A''\<rparr>)
     = Some sample_item
   \<and> \<not> truthy (picked (sample_state\<lparr>streak := 1, availableTrivia := [''f1'', ''f2''], typedAnswer := ''A''\<rparr>))
   \<and> Single ''a'' = answer sample_item \<and> Single ''b'' \<noteq> answer sample_item
   \<and> isDefinitionCorrect ''A'' (answer sample_item) (synonyms sample_item)
   \<and> trivia (select ''a'' (sample_state\<lparr>streak := 1, availableTrivia := [''f1'', ''f2''], typedAnswer := ''A''\<rparr>))
       = Some ''f1''
   \<and> availableTrivia (select ''a'' (sample_state\<lparr>streak := 1, availableTrivia := [''f1'', ''f2''], typedAnswer := ''A''\<rparr>))
       = [''f2'']
   \<and> streak (select ''a'' (sample_state\<lparr>streak := 1, availableTrivia := [''f1'', ''f2''], typedAnswer := ''A''\<rparr>)) = 0
   \<and> streak (select ''b'' (sample_state\<lparr>streak := 1, availableTrivia := [''f1'', ''f2''], typedAnswer := ''A''\<rparr>)) = 0
   \<and> availableTrivia (select ''b'' (sample_state\<lparr>streak := 1, availableTrivia := [''f1'', ''f2''], typedAnswer := ''A''\<rparr>))
       = [''f1'', ''f2'']
   \<and> trivia (checkDefinition (sample_state\<lparr>streak := 1, availableTrivia := [''f1'', ''f2''], typedAnswer := ''A''\<rparr>))
       = Some ''f1''
   \<and> streak (select ''a'' (sample_state\<lparr>streak := 2, availableTrivia := [], typedAnswer := ''A''\<rparr>)) = 3
   \<and> streak (checkDefinition (sample_state\<lparr>streak := 2, availableTrivia := [], typedAnswer := ''A''\<rparr>)) = 3
   \<and> streak (select ''a'' (sample_state\<lparr>streak := 0, availableTrivia := [''f1'', ''f2''], typedAnswer := ''A''\<rparr>)) = 1
   \<and> availableTrivia (select ''a'' (sample_state\<lparr>streak := 0, availableTrivia := [''f1'', ''f2''], typedAnswer := ''A''\<rparr>))
       = [''f1'', ''f2'']"
proof -
  have ok: "Single ''a'' = answer sample_item" "Single ''b'' \<noteq> answer sample_item"
    "isDefinitionCorrect ''A'' (answer sample_item) (synonyms sample_item)"
    by (simp_all add: sample_item_def isDefinitionCorrect_def string_eval)
  note full = streak_and_trivia
    [of "sample_state\<lparr>streak := 1, availableTrivia := [''f1'', ''f2''], typedAnswer := ''A''\<rparr>"
        sample_item _ "''a''" _ _ _ "''f1''" "[''f2'']", OF current_sample _ refl refl refl refl]
  note wrong = streak_and_trivia
    [of "sample_state\<lparr>streak := 1, availableTrivia := [''f1'', ''f2''], typedAnswer := ''A''\<rparr>"
        sample_item _ "''b''" _ _ _ "''f1''" "[''f2'']", OF current_sample _ refl refl refl refl]
  note none = streak_and_trivia
    [of "sample_state\<lparr>streak := 2, availableTrivia := [], typedAnswer := ''A''\<rparr>"
        sample_item _ "''a''" _ _ _ "''f1''" "[''f2'']", OF current_sample _ refl refl refl refl]
  note first = streak_and_trivia
    [of "sample_state\<lparr>streak := 0, availableTrivia := [''f1'', ''f2''], typedAnswer := ''A''\<rparr>"
        sample_item _ "''a''" _ _ _ "''f1''" "[''f2'']", OF current_sample _ refl refl refl refl]
  show ?thesis
    using full wrong none first ok by (simp add: truthy_def)
qed


section \<open>Skip (C6)\<close>

lemma mset_move_to_end:
  "i < length xs \<Longrightarrow> mset (take i xs @ drop (Suc i) xs @ [xs ! i]) = mset xs"
proof -
  assume "i < length xs"
  then have "xs = take i xs @ xs ! i # drop (Suc i) xs"
    by (rule id_take_nth_drop)
  then have "mset xs = mset (take i xs @ xs ! i # drop (Suc i) xs)"
    by simp
  then show ?thesis by simp
qed

text \<open>
  C6: with a non-empty order and the cursor in range, \<open>skip\<close> removes the entry at the
  cursor and appends it at the end; the new order is a permutation of the old one, of the
  same length; the cursor keeps its value; selection, typed text and feedback are
  cleared. On the empty order \<open>skip\<close> leaves the order as it is. The order
  \<open>[0, 1, 2]\<close> with cursor 1 becomes \<open>[0, 2, 1]\<close> with cursor 1.
\<close>

theorem skip_moves_current_to_end:
  "(order s \<noteq> [] \<and> cursor s < length (order s) \<longrightarrow>
      order (skip s)
        = take (cursor s) (order s) @ drop (Suc (cursor s)) (order s) @ [order s ! cursor s]
      \<and> mset (order (skip s)) = mset (order s)
      \<and> length (order (skip s)) = length (order s)
      \<and> cursor (skip s) = cursor s
      \<and> picked (skip s) = None \<and> showFeedback (skip s) = None \<and> typedAnswer (skip s) = [])
   \<and> (order s = [] \<longrightarrow> order (skip s) = order s)
   \<and> order (skip (initial_state\<lparr>order := [Some 0, Some 1, Some 2], cursor := 1\<rparr>))
        = [Some 0, Some 2, Some 1]
   \<and> cursor (skip (initial_state\<lparr>order := [Some 0, Some 1, Some 2], cursor := 1\<rparr>)) = 1"
proof (intro conjI impI)
  assume a: "order s \<noteq> [] \<and> cursor s < length (order s)"
  then show o: "order (skip s)
        = take (cursor s) (order s) @ drop (Suc (cursor s)) (order s) @ [order s ! cursor s]"
    by (simp add: skip_def skip_order_in_range)
  from a show "mset (order (skip s)) = mset (order s)"
    unfolding o by (simp only: mset_move_to_end)
  from a show "length (order (skip s)) = length (order s)"
    unfolding o by simp
next
  show "order (skip (initial_state\<lparr>order := [Some 0, Some 1, Some 2], cursor := 1\<rparr>))
        = [Some 0, Some 2, Some 1]"
    by (simp add: skip_def skip_order_in_range)
qed (simp_all add: skip_def skip_order_def)

text \<open>C6 at the order \<open>[2, 0, 1]\<close> with cursor 0, and at the initial state.\<close>

theorem skip_moves_current_to_end_witness:
  "order (sample_state\<lparr>order := [Some 2, Some 0, Some 1], cursor := 2\<rparr>) \<noteq> []
   \<and> cursor (sample_state\<lparr>order := [Some 2, Some 0, Some 1], cursor := 2\<rparr>) < 3
   \<and> order (skip (sample_state\<lparr>order := [Some 2, Some 0, Some 1], cursor := 0\<rparr>))
       = [Some 0, Some 1, Some 2]
   \<and> mset (order (skip (sample_state\<lparr>order := [Some 2, Some 0, Some 1], cursor := 0\<rparr>)))
       = {#Some 0, Some 1, Some 2#}
   \<and> order initial_state = [] \<and> order (skip initial_state) = []"
  using skip_moves_current_to_end [of "sample_state\<lparr>order := [Some 2, Some 0, Some 1], cursor := 0\<rparr>"]
    skip_moves_current_to_end [of initial_state]
  by (simp add: sample_state_def initial_state_def)


section \<open>What the choice buttons show (C7)\<close>

text \<open>
  C7 says that the list of visible choices always contains the answer. The code is
  evaluated at an item with the five choices a, b, c, d, e and the answer a, which the
  normalizer produces from \<open>{question: "Q", choices: ["a","b","c","d","e"], answer: "a"}\<close>:
  when the first draw of the shuffle is 0 and the others leave their entries in place, the
  answer goes to the last of the five places, and the cut to four entries removes it.
\<close>

theorem visibleChoices_drops_answer:
  "draws_in_range (\<lambda>i. if i = 4 then 0 else i)
   \<and> normalize (sample_raw\<lparr>raw_choices := Some [''a'', ''b'', ''c'', ''d'', ''e'']\<rparr>) 0
       = Some (sample_item\<lparr>choices := [''a'', ''b'', ''c'', ''d'', ''e'']\<rparr>)
   \<and> current (sample_state\<lparr>items := [sample_item\<lparr>choices := [''a'', ''b'', ''c'', ''d'', ''e'']\<rparr>]\<rparr>)
       = Some (sample_item\<lparr>choices := [''a'', ''b'', ''c'', ''d'', ''e'']\<rparr>)
   \<and> visibleChoices (\<lambda>i. if i = 4 then 0 else i) (\<lambda>i. i)
         (sample_state\<lparr>items := [sample_item\<lparr>choices := [''a'', ''b'', ''c'', ''d'', ''e'']\<rparr>]\<rparr>)
       = [Single ''e'', Single ''b'', Single ''c'', Single ''d'']
   \<and> Single ''a'' \<notin> set (visibleChoices (\<lambda>i. if i = 4 then 0 else i) (\<lambda>i. i)
         (sample_state\<lparr>items := [sample_item\<lparr>choices := [''a'', ''b'', ''c'', ''d'', ''e'']\<rparr>]\<rparr>))"
proof -
  have d: "draws_in_range (\<lambda>i. if i = 4 then 0 else i)"
    by (simp add: draws_in_range_def)
  have n: "normalize (sample_raw\<lparr>raw_choices := Some [''a'', ''b'', ''c'', ''d'', ''e'']\<rparr>) 0
       = Some (sample_item\<lparr>choices := [''a'', ''b'', ''c'', ''d'', ''e'']\<rparr>)"
    by (simp add: sample_raw_def sample_item_def empty_raw_def normalize_eval string_eval)
  have c: "current (sample_state\<lparr>items := [sample_item\<lparr>choices := [''a'', ''b'', ''c'', ''d'', ''e'']\<rparr>]\<rparr>)
       = Some (sample_item\<lparr>choices := [''a'', ''b'', ''c'', ''d'', ''e'']\<rparr>)"
    by (simp add: current_def sample_state_def initial_state_def nth_opt_def)
  have sh: "shuffle (\<lambda>i. if i = 4 then 0 else i)
              [Single ''a'', Single ''b'', Single ''c'', Single ''d'', Single ''e'']
            = [Single ''e'', Single ''b'', Single ''c'', Single ''d'', Single ''a'']"
    by (simp add: shuffle_def swap_def eval_nat_numeral)
  have v: "visibleChoices (\<lambda>i. if i = 4 then 0 else i) (\<lambda>i. i)
         (sample_state\<lparr>items := [sample_item\<lparr>choices := [''a'', ''b'', ''c'', ''d'', ''e'']\<rparr>]\<rparr>)
       = [Single ''e'', Single ''b'', Single ''c'', Single ''d'']"
    by (simp add: visibleChoices_def c) (simp add: sample_item_def sh)
  from d n c v show ?thesis by simp
qed


text \<open>
  The rest holds for a multiple-choice item with a string answer and distinct,
  non-empty choices, as the normalizer produces them: at most four entries, all
  distinct, each the answer or a choice; and the answer is among them when the item has
  at most three other choices.
\<close>

lemma visibleChoices_sound:
  assumes "current s = Some cur" and "item_type cur \<noteq> Some ''definition''"
    and "answer cur = Single ans" and "distinct (choices cur)" and "choices cur \<noteq> []"
    and "draws_in_range rnd1" and "draws_in_range rnd2"
  shows "length (visibleChoices rnd1 rnd2 s) \<le> 4
       \<and> distinct (visibleChoices rnd1 rnd2 s)
       \<and> set (visibleChoices rnd1 rnd2 s) \<subseteq> insert (answer cur) (Single ` set (choices cur))
       \<and> (length (filter (\<lambda>c. Single c \<noteq> answer cur) (choices cur)) \<le> 3
            \<longrightarrow> answer cur \<in> set (visibleChoices rnd1 rnd2 s))"
proof -
  let ?others = "filter (\<lambda>c. Single c \<noteq> answer cur) (choices cur)"
  let ?L = "answer cur # map Single ?others"
  let ?base = "take (max 4 (min 4 (length (choices cur)))) (shuffle rnd1 ?L)"
  have four: "max 4 (min 4 (length (choices cur))) = 4" by simp
  have dL: "distinct ?L"
    using assms(4) by (auto simp: distinct_map inj_on_def)
  have dS: "distinct (shuffle rnd1 ?L)"
    using dL assms(6) by (simp only: shuffle_distinct)
  have sS: "set (shuffle rnd1 ?L) = set ?L"
    using assms(6) by (rule shuffle_set)
  have v: "visibleChoices rnd1 rnd2 s =
             (if 2 \<le> length ?base then ?base else map Single (shuffle rnd2 (choices cur)))"
    using assms(1,2) by (simp add: visibleChoices_def Let_def)
  show ?thesis
  proof (cases "2 \<le> length ?base")
    case True
    then have vb: "visibleChoices rnd1 rnd2 s = take 4 (shuffle rnd1 ?L)"
      unfolding v four by simp
    have len: "length (take 4 (shuffle rnd1 ?L)) \<le> 4"
      by simp
    have dis: "distinct (take 4 (shuffle rnd1 ?L))"
      using dS by (rule distinct_take)
    have "set (take 4 (shuffle rnd1 ?L)) \<subseteq> set (shuffle rnd1 ?L)"
      by (rule set_take_subset)
    moreover have "set ?L \<subseteq> insert (answer cur) (Single ` set (choices cur))"
      by auto
    ultimately have sub: "set (take 4 (shuffle rnd1 ?L))
                            \<subseteq> insert (answer cur) (Single ` set (choices cur))"
      unfolding sS by (rule subset_trans)
    have mem: "length ?others \<le> 3 \<longrightarrow> answer cur \<in> set (take 4 (shuffle rnd1 ?L))"
    proof
      assume "length ?others \<le> 3"
      then have "take 4 (shuffle rnd1 ?L) = shuffle rnd1 ?L"
        by simp
      moreover have "answer cur \<in> set ?L"
        by simp
      ultimately show "answer cur \<in> set (take 4 (shuffle rnd1 ?L))"
        using sS by simp
    qed
    from len dis sub mem show ?thesis
      unfolding vb by blast
  next
    case False
    moreover have "length ?base = min (length ?L) 4"
      unfolding four by simp
    ultimately have "length ?L < 2"
      by arith
    then have o: "?others = []"
      by (cases "?others") simp_all
    then have all: "\<forall>c \<in> set (choices cur). Single c = answer cur"
      by (auto simp: filter_empty_conv)
    obtain c where c: "choices cur = [c]"
    proof (cases "choices cur")
      case Nil
      with assms(5) show ?thesis by simp
    next
      case (Cons x xs)
      have "xs = []"
      proof (rule ccontr)
        assume "xs \<noteq> []"
        then obtain y where "y \<in> set xs" by (cases xs) auto
        with all Cons assms(3,4) show False by auto
      qed
      with Cons that show ?thesis by simp
    qed
    from False have vb: "visibleChoices rnd1 rnd2 s = map Single (shuffle rnd2 (choices cur))"
      unfolding v by simp
    have "shuffle rnd2 [c] = [c]"
      by (simp add: shuffle_def)
    with all show ?thesis
      unfolding vb c by simp
  qed
qed


section \<open>Shuffle is a permutation of a fresh copy (C9)\<close>

text \<open>
  C9: for every store \<open>h\<close> of arrays, every input array \<open>arr\<close> in it and every
  outcome of the draws, \<open>shuffle\<close> returns a new array \<open>a\<close>; every array that was in
  the store, the input among them, is as before; the new array is a permutation of
  the input, of the same length, and is what the function on values computes.
\<close>

theorem shuffle_fresh_permutation:
  assumes "draws_in_range rnd" and "arr < length h"
    and "shuffle_heap rnd arr h = (a, h')"
  shows "a = length h \<and> length h' = Suc (length h)
       \<and> take (length h) h' = h \<and> h' ! arr = h ! arr
       \<and> h' ! a = shuffle rnd (h ! arr)
       \<and> mset (h' ! a) = mset (h ! arr)
       \<and> length (h' ! a) = length (h ! arr)"
proof -
  from assms(3) have a: "a = length h"
    and h': "h' = shuffle_loop_heap rnd (length (h ! arr) - 1) (length h) (h @ [h ! arr])"
    by (auto simp: shuffle_heap_def Let_def)
  have eq: "h' = h @ [shuffle rnd (h ! arr)]"
    unfolding h' by (simp add: shuffle_loop_heap_eq shuffle_def)
  from assms(2) have "h' ! arr = h ! arr"
    unfolding eq by (simp add: nth_append)
  moreover have "h' ! a = shuffle rnd (h ! arr)"
    unfolding eq a by simp
  ultimately show ?thesis
    using a assms(1) by (simp add: eq shuffle_mset)
qed

text \<open>C9 at the array \<open>[1, 2, 3]\<close> with every draw equal to 0.\<close>

theorem shuffle_fresh_permutation_witness:
  "draws_in_range (\<lambda>i. 0) \<and> (0::nat) < length [[1, 2, 3 :: nat]]
   \<and> shuffle_heap (\<lambda>i. 0) 0 [[1, 2, 3 :: nat]] = (1, [[1, 2, 3], [2, 3, 1]])
   \<and> mset [2, 3, 1 :: nat] = mset [1, 2, 3]"
proof -
  have d: "draws_in_range (\<lambda>i. 0)"
    by (simp add: draws_in_range_def)
  have e: "shuffle_heap (\<lambda>i. 0) 0 [[1, 2, 3 :: nat]] = (1, [[1, 2, 3], [2, 3, 1]])"
    by (simp add: shuffle_heap_def swap_def numeral_2_eq_2)
  have lt: "(0::nat) < length [[1, 2, 3 :: nat]]"
    by simp
  note r = shuffle_fresh_permutation [OF d lt e]
  from r have "mset ([[1, 2, 3], [2, 3, 1 :: nat]] ! 1) = mset ([[1, 2, 3 :: nat]] ! 0)"
    by blast
  then have "mset [2, 3, 1 :: nat] = mset [1, 2, 3]"
    by simp
  with d e show ?thesis
    by simp
qed


section \<open>The lock after an answer (C10)\<close>

lemma normalize_item_ok:
  assumes "normalize raw idx = Some it"
  shows "answer it \<noteq> Single [] \<and> (\<forall>c \<in> set (choices it). c \<noteq> [])"
proof -
  from assms have c: "choices it = from_set (clean_choices (resolve_choices raw))"
    and a: "\<not> answer_falsy (resolve_answer raw (resolve_choices raw))"
       "answer it = the (resolve_answer raw (resolve_choices raw))"
    by (auto simp: normalize_def Let_def split: if_splits)
  from a have "answer it \<noteq> Single []"
    by (auto simp: answer_falsy_def split: option.splits answer.splits)
  moreover have "\<forall>c \<in> set (choices it). c \<noteq> []"
    unfolding c by (auto dest: clean_choices_elems)
  ultimately show ?thesis by blast
qed

lemma normalize_all_items_ok:
  "it \<in> set (normalize_all json) \<Longrightarrow>
   answer it \<noteq> Single [] \<and> (\<forall>c \<in> set (choices it). c \<noteq> [])"
proof -
  assume "it \<in> set (normalize_all json)"
  then obtain raw idx where "normalize raw idx = Some it"
    by (auto simp: normalize_all_def)
  then show ?thesis by (rule normalize_item_ok)
qed

lemma current_in_items: "current s = Some cur \<Longrightarrow> cur \<in> set (items s)"
  by (auto simp: current_def nth_opt_def Let_def split: if_splits)

lemma visibleChoices_subset:
  assumes "current s = Some cur" and "draws_in_range rnd1" and "draws_in_range rnd2"
  shows "set (visibleChoices rnd1 rnd2 s) \<subseteq> insert (answer cur) (Single ` set (choices cur))"
proof -
  let ?L = "answer cur # map Single (filter (\<lambda>c. Single c \<noteq> answer cur) (choices cur))"
  have "set (take 4 (shuffle rnd1 ?L)) \<subseteq> set (shuffle rnd1 ?L)"
    by (rule set_take_subset)
  moreover have "set (shuffle rnd1 ?L) = set ?L"
    using assms(2) by (rule shuffle_set)
  moreover have "set ?L \<subseteq> insert (answer cur) (Single ` set (choices cur))"
    by auto
  ultimately have base: "set (take 4 (shuffle rnd1 ?L))
                           \<subseteq> insert (answer cur) (Single ` set (choices cur))"
    by blast
  have "set (map Single (shuffle rnd2 (choices cur))) = Single ` set (choices cur)"
    using assms(3) by (simp add: shuffle_set)
  then have other: "set (map Single (shuffle rnd2 (choices cur)))
                      \<subseteq> insert (answer cur) (Single ` set (choices cur))"
    by blast
  have four: "max 4 (min 4 (length (choices cur))) = 4"
    by simp
  have "visibleChoices rnd1 rnd2 s = []
        \<or> visibleChoices rnd1 rnd2 s = take 4 (shuffle rnd1 ?L)
        \<or> visibleChoices rnd1 rnd2 s = map Single (shuffle rnd2 (choices cur))"
    unfolding visibleChoices_def Let_def four using assms(1) by simp
  with base other show ?thesis
    by (elim disjE) simp_all
qed

lemma no_current_no_choices: "current s = None \<Longrightarrow> visibleChoices rnd1 rnd2 s = []"
  by (simp add: visibleChoices_def)

lemma items_record_answer [simp]: "items (record_answer g ok s) = items s"
  by (simp add: record_answer_def reward_def Let_def split: list.splits)

lemma picked_record_answer [simp]: "picked (record_answer g ok s) = Some g"
  by (simp add: record_answer_def reward_def Let_def split: list.splits)

lemma select_cases:
  "select choice s = s \<and> (current s = None \<or> truthy (picked s))
   \<or> (\<exists>ok. select choice s = record_answer choice ok s)"
  by (auto simp: select_def split: option.splits)

lemma checkDefinition_cases:
  "checkDefinition s = s \<and> (current s = None \<or> truthy (picked s))
   \<or> (\<exists>ok. checkDefinition s = record_answer (typedAnswer s) ok s)"
  by (auto simp: checkDefinition_def split: option.splits)

lemma trim_Nil [simp]: "trim [] = []"
  by (simp add: trim_def)

lemma well_formed_record_answer:
  "well_formed s \<Longrightarrow> g \<noteq> [] \<Longrightarrow> well_formed (record_answer g ok s)"
  by (simp add: well_formed_def truthy_def)

lemma well_formed_upload:
  "well_formed s \<Longrightarrow> well_formed (onUploadQuestions rnd ev s)"
  by (auto simp: well_formed_def onUploadQuestions_def Let_def
      dest: normalize_all_items_ok split: file_event.splits parsed.splits)

lemma reachable_well_formed: "reachable s \<Longrightarrow> well_formed s"
proof (induction rule: reachable.induct)
  case start
  show ?case by (simp add: well_formed_def initial_state_def)
next
  case (upload_questions s rnd ev)
  then show ?case by (simp add: well_formed_upload)
next
  case (upload_trivia s rnd tev)
  then show ?case
    by (auto simp: well_formed_def onUploadTrivia_def split: trivia_event.splits parsed_trivia.splits)
next
  case (read_aloud s b)
  then show ?case by (simp add: well_formed_def setTts_def)
next
  case (close_trivia s)
  then show ?case by (simp add: well_formed_def closeTrivia_def)
next
  case (type_text s v)
  then show ?case by (simp add: well_formed_def setTypedAnswer_def)
next
  case (click_submit s)
  from click_submit.hyps(2) have "typedAnswer s \<noteq> []" by auto
  with click_submit.IH checkDefinition_cases[of s] show ?case
    by (auto simp: well_formed_record_answer)
next
  case (click_choice s rnd1 rnd2 choice)
  show ?case
  proof (cases "current s")
    case None
    with click_choice.hyps(4) show ?thesis by (simp add: no_current_no_choices)
  next
    case (Some cur)
    with click_choice.hyps have "Single choice \<in> insert (answer cur) (Single ` set (choices cur))"
      using visibleChoices_subset by blast
    moreover from Some click_choice.IH
    have "answer cur \<noteq> Single [] \<and> (\<forall>c \<in> set (choices cur). c \<noteq> [])"
      using current_in_items by (auto simp: well_formed_def)
    ultimately have "choice \<noteq> []" by auto
    with click_choice.IH select_cases[of choice s] show ?thesis
      by (auto simp: well_formed_record_answer)
  qed
next
  case (click_next s)
  then show ?case by (simp add: well_formed_def next_item_def)
next
  case (click_skip s)
  then show ?case by (simp add: well_formed_def skip_def)
qed

lemma locked_select: "truthy (picked s) \<Longrightarrow> select choice s = s"
  by (simp add: select_def split: option.splits)

lemma locked_checkDefinition: "truthy (picked s) \<Longrightarrow> checkDefinition s = s"
  by (simp add: checkDefinition_def split: option.splits)

text \<open>
  C10: in every session that the page can be in, once an answer has been recorded
  (\<open>picked\<close> is set) and feedback is shown, \<open>select\<close> with any choice and
  \<open>checkDefinition\<close> return the state as it is: score, streak, trivia queue, pending
  trivia, feedback and selection are all unchanged, and no item is scored twice.
\<close>

theorem answered_state_is_locked:
  assumes "reachable s" and "picked s \<noteq> None" and "showFeedback s \<noteq> None"
  shows "select choice s = s \<and> checkDefinition s = s"
proof -
  from assms(1) have "well_formed s" by (rule reachable_well_formed)
  with assms(2) have "truthy (picked s)" by (auto simp: well_formed_def)
  then show ?thesis by (simp add: locked_select locked_checkDefinition)
qed

text \<open>
  C10 at the session reached by uploading the sample item: after the wrong choice b the
  score is 0 of 1, after the typed answer a it is 1 of 1, and in both sessions a further
  choice or submit changes nothing.
\<close>

lemma reachable_sample: "reachable sample_state"
proof -
  have d: "draws_in_range (\<lambda>i. 0)"
    by (simp add: draws_in_range_def)
  have "onUploadQuestions (\<lambda>i. 0) (ReadDone (RawArray [sample_raw])) initial_state = sample_state"
    by (simp add: onUploadQuestions_def normalize_all_sample sample_state_def initial_state_def
        shuffle_def)
  with reachable.upload_questions [OF reachable.start d,
      of "ReadDone (RawArray [sample_raw])"]
  show ?thesis by simp
qed

lemma visible_sample:
  "visibleChoices (\<lambda>i. 0) (\<lambda>i. 0) sample_state = [Single ''b'', Single ''a'']"
proof -
  have c: "current sample_state = Some sample_item"
    by (simp add: current_def sample_state_def initial_state_def nth_opt_def)
  show ?thesis
    by (simp add: visibleChoices_def c) (simp add: sample_item_def shuffle_def swap_def)
qed

theorem answered_state_is_locked_witness:
  "reachable (select ''b'' sample_state)
   \<and> picked (select ''b'' sample_state) \<noteq> None
   \<and> showFeedback (select ''b'' sample_state) \<noteq> None
   \<and> score (select ''b'' sample_state) = \<lparr>correct = 0, total = 1\<rparr>
   \<and> select ''a'' (select ''b'' sample_state) = select ''b'' sample_state
   \<and> checkDefinition (select ''b'' sample_state) = select ''b'' sample_state
   \<and> reachable (checkDefinition (setTypedAnswer ''a'' sample_state))
   \<and> picked (checkDefinition (setTypedAnswer ''a'' sample_state)) \<noteq> None
   \<and> showFeedback (checkDefinition (setTypedAnswer ''a'' sample_state)) \<noteq> None
   \<and> score (checkDefinition (setTypedAnswer ''a'' sample_state)) = \<lparr>correct = 1, total = 1\<rparr>
   \<and> select ''a'' (checkDefinition (setTypedAnswer ''a'' sample_state))
        = checkDefinition (setTypedAnswer ''a'' sample_state)
   \<and> checkDefinition (checkDefinition (setTypedAnswer ''a'' sample_state))
        = checkDefinition (setTypedAnswer ''a'' sample_state)"
proof -
  have d: "draws_in_range (\<lambda>i. 0)"
    by (simp add: draws_in_range_def)
  have cur: "current sample_state = Some sample_item"
    by (simp add: current_def sample_state_def initial_state_def nth_opt_def)
  have cur': "current (setTypedAnswer ''a'' sample_state) = Some sample_item"
    by (simp add: current_def setTypedAnswer_def sample_state_def initial_state_def nth_opt_def)
  have sel: "select ''b'' sample_state = record_answer ''b'' False sample_state"
    using cur by (simp add: select_def sample_item_def)
       (simp add: sample_state_def initial_state_def truthy_def)
  have chk: "checkDefinition (setTypedAnswer ''a'' sample_state)
               = record_answer ''a'' True (setTypedAnswer ''a'' sample_state)"
    using cur' by (simp add: checkDefinition_def)
       (simp add: setTypedAnswer_def sample_state_def initial_state_def sample_item_def truthy_def
          isDefinitionCorrect_def string_eval)
  have r1: "reachable (select ''b'' sample_state)"
    by (rule reachable.click_choice [OF reachable_sample d d]) (simp add: visible_sample)
  have r2: "reachable (checkDefinition (setTypedAnswer ''a'' sample_state))"
    by (rule reachable.click_submit [OF reachable.type_text [OF reachable_sample]])
       (simp add: setTypedAnswer_def string_eval)
  have p1: "picked (select ''b'' sample_state) \<noteq> None"
    and f1: "showFeedback (select ''b'' sample_state) \<noteq> None"
    and s1: "score (select ''b'' sample_state) = \<lparr>correct = 0, total = 1\<rparr>"
    unfolding sel
    by (simp_all add: record_answer_def reward_def sample_state_def initial_state_def)
  have p2: "picked (checkDefinition (setTypedAnswer ''a'' sample_state)) \<noteq> None"
    and f2: "showFeedback (checkDefinition (setTypedAnswer ''a'' sample_state)) \<noteq> None"
    and s2: "score (checkDefinition (setTypedAnswer ''a'' sample_state)) = \<lparr>correct = 1, total = 1\<rparr>"
    unfolding chk
    by (simp_all add: record_answer_def reward_def setTypedAnswer_def sample_state_def
        initial_state_def)
  from answered_state_is_locked [OF r1 p1 f1, of "''a''"]
    answered_state_is_locked [OF r2 p2 f2, of "''a''"]
    r1 p1 f1 s1 r2 p2 f2 s2
  show ?thesis by blast
qed

end
